theory Spec2Isabelle
  imports Main "HOL-Library.Word" "HOL-Library.Sublist"
begin

section \<open>graphviz/rendering.py: save, render, pipe, unflatten and view\<close>

text \<open>
  The module \<^verbatim>\<open>rendering.py\<close> is an orchestration layer: every method reads the
  configuration carried on the calling object, calls into \<^verbatim>\<open>backend\<close> (command
  construction and subprocess execution) and returns what the backend returned, possibly
  decoded, wrapped in a new \<^verbatim>\<open>Source\<close>, or followed by a viewer launch.

  Python values are modelled as follows: \<^verbatim>\<open>str\<close> is \<^typ>\<open>string\<close>, \<^verbatim>\<open>bytes\<close> is a list
  of 8-bit words, an argument that may be \<^verbatim>\<open>None\<close> is an \<^typ>\<open>'a option\<close>, a raised
  exception is the left injection of a sum, and everything a call does to the file system
  or to the process table is a change of an explicit \<open>world\<close> value that is passed in
  and returned.
\<close>

subsection \<open>Values, errors, the calling object, the world\<close>

type_synonym bytes = "8 word list"

datatype error =
    RequiredArgumentError
  | ConfigurationError string
  | ExecutableNotFound string
  | CalledProcessError int string
  | RuntimeError string
  | LookupError string
  | UnicodeEncodeError nat
  | UnicodeDecodeError nat
  | OSError string

text \<open>
  The fields the methods of \<^verbatim>\<open>rendering.py\<close> read from \<^verbatim>\<open>self\<close>:
  \<^verbatim>\<open>self.source\<close>, \<^verbatim>\<open>self.filename\<close>, \<^verbatim>\<open>self.directory\<close>, \<^verbatim>\<open>self._format\<close>,
  \<^verbatim>\<open>self._engine\<close> and \<^verbatim>\<open>self._encoding\<close>.
\<close>

record source_obj =
  source :: string
  filename :: string
  directory :: "string option"
  self_format :: string
  self_engine :: string
  self_encoding :: string

text \<open>
  The world outside the interpreter: the paths that exist on disk, the subprocesses that
  were run to completion (executable and arguments, oldest first), and the viewer processes
  that were started and left running (launcher, file, quiet flag).
\<close>

type_synonym launch = "string \<times> string \<times> bool"

record world =
  files :: "string set"
  spawned :: "string list list"
  launched :: "launch list"

text \<open>
  What the module takes from its surroundings and \<^verbatim>\<open>rendering.py\<close> does not define:
  the constant \<^verbatim>\<open>backend.PLATFORM\<close>; the known-value tables of the backend; Python's codec
  registry (\<^verbatim>\<open>codecs.lookup\<close> returns the same cached object for every alias of a codec,
  so the object is modelled by its identity, a number, and the codec's two functions are
  indexed by it); the behaviour of the external executables (exit status, standard output,
  standard error for a command line and a standard input, \<open>None\<close> when the executable
  cannot be started); the lines \<^verbatim>\<open>iter(self)\<close> yields; and the paths that cannot be
  written.
\<close>

record env =
  PLATFORM :: string
  ENGINES :: "string list"
  FORMATS :: "string list"
  RENDERERS :: "string list"
  FORMATTERS :: "string list"
  codecs_lookup :: "string \<Rightarrow> nat option"
  codec_encode :: "nat \<Rightarrow> string \<Rightarrow> bytes option"
  codec_decode :: "nat \<Rightarrow> bytes \<Rightarrow> string option"
  tool :: "string \<Rightarrow> string list \<Rightarrow> bytes \<Rightarrow> (int \<times> bytes \<times> string) option"
  iter_lines :: "source_obj \<Rightarrow> string list"
  unwritable :: "string \<Rightarrow> bool"

subsection \<open>Python built-ins used by the module\<close>

text \<open>\<^verbatim>\<open>str.encode(encoding)\<close> and \<^verbatim>\<open>bytes.decode(encoding)\<close> with the default
  \<^verbatim>\<open>errors='strict'\<close>: an unknown encoding name raises \<^verbatim>\<open>LookupError\<close>, a value the
  codec cannot convert raises.\<close>

definition str_encode :: "env \<Rightarrow> string \<Rightarrow> string \<Rightarrow> error + bytes" where
  "str_encode ev encoding s =
     (case codecs_lookup ev encoding of
        None \<Rightarrow> Inl (LookupError encoding)
      | Some c \<Rightarrow>
          (case codec_encode ev c s of
             None \<Rightarrow> Inl (UnicodeEncodeError c)
           | Some b \<Rightarrow> Inr b))"

definition bytes_decode :: "env \<Rightarrow> string \<Rightarrow> bytes \<Rightarrow> error + string" where
  "bytes_decode ev encoding raw =
     (case codecs_lookup ev encoding of
        None \<Rightarrow> Inl (LookupError encoding)
      | Some c \<Rightarrow>
          (case codec_decode ev c raw of
             None \<Rightarrow> Inl (UnicodeDecodeError c)
           | Some s \<Rightarrow> Inr s))"

text \<open>\<^verbatim>\<open>repr\<close> of a \<^verbatim>\<open>str\<close> (the \<^verbatim>\<open>!r\<close> conversion of an f-string): single quotes unless
  the text has a single quote and no double quote; the quote in use and the backslash are
  escaped, as are line feed, carriage return and tab; any other non-printable character is
  written \<^verbatim>\<open>\xhh\<close>.\<close>

definition hex_digit :: "nat \<Rightarrow> char" where
  "hex_digit d = ''0123456789abcdef'' ! (d mod 16)"

definition repr_char :: "char \<Rightarrow> char \<Rightarrow> string" where
  "repr_char q c =
     (let n = (of_char c :: nat) in
      if c = q \<or> c = CHR 0x5C then [CHR 0x5C, c]
      else if c = CHR 0x0A then [CHR 0x5C, CHR ''n'']
      else if c = CHR 0x0D then [CHR 0x5C, CHR ''r'']
      else if c = CHR 0x09 then [CHR 0x5C, CHR ''t'']
      else if n < 32 \<or> (127 \<le> n \<and> n \<le> 160) \<or> n = 173
        then [CHR 0x5C, CHR ''x'', hex_digit (n div 16), hex_digit n]
      else [c])"

definition py_repr :: "string \<Rightarrow> string" where
  "py_repr s =
     (let q = (if CHR 0x27 \<in> set s \<and> CHR 0x22 \<notin> set s then CHR 0x22 else CHR 0x27)
      in q # concat (map (repr_char q) s) @ [q])"

text \<open>\<^verbatim>\<open>str\<close> of an \<^verbatim>\<open>int\<close>.\<close>

fun str_nat :: "nat \<Rightarrow> string" where
  "str_nat n =
     (if n < 10 then [''0123456789'' ! n]
      else str_nat (n div 10) @ [''0123456789'' ! (n mod 10)])"

definition str_int :: "int \<Rightarrow> string" where
  "str_int i = (if i < 0 then CHR ''-'' # str_nat (nat (- i)) else str_nat (nat i))"

text \<open>\<^verbatim>\<open>os.remove(path)\<close>: deletes the file, raises when there is none.\<close>

definition os_remove :: "string \<Rightarrow> world \<Rightarrow> (error + unit) \<times> world" where
  "os_remove path w =
     (if path \<in> files w then (Inr (), w\<lparr>files := files w - {path}\<rparr>)
      else (Inl (OSError path), w))"

declare str_nat.simps [simp del]

subsection \<open>The backend, modelled from the spec\<close>

text \<open>
  Modelled from the spec: \<^verbatim>\<open>backend.command\<close> (the Command Builder of section 4.1) is
  not defined in this module. A formatter without a renderer fails with
  \<^verbatim>\<open>RequiredArgumentError\<close> for every format value, so this check comes before the
  validation of engine and format against the known-value sets; an unknown value fails with
  \<^verbatim>\<open>ConfigurationError\<close> naming it; the format argument is the bare format or
  \<^verbatim>\<open>format:renderer:formatter\<close>. Nothing is spawned here.
\<close>

definition command ::
  "env \<Rightarrow> string \<Rightarrow> string \<Rightarrow> string option \<Rightarrow> string option \<Rightarrow> error + string list" where
  "command ev engine format renderer formatter =
     (if formatter \<noteq> None \<and> renderer = None then Inl RequiredArgumentError
      else if engine \<notin> set (ENGINES ev) then Inl (ConfigurationError engine)
      else if format \<notin> set (FORMATS ev) then Inl (ConfigurationError format)
      else
        (case renderer of
           None \<Rightarrow> Inr [''-T'' @ format]
         | Some r \<Rightarrow>
             if r \<notin> set (RENDERERS ev) then Inl (ConfigurationError r)
             else
               (case formatter of
                  None \<Rightarrow> Inr [''-T'' @ format @ '':'' @ r]
                | Some f \<Rightarrow>
                    if f \<notin> set (FORMATTERS ev) then Inl (ConfigurationError f)
                    else Inr [''-T'' @ format @ '':'' @ r @ '':'' @ f])))"

text \<open>
  Modelled from the spec: the Process Runner of section 4.2 is not defined in
  this module. It executes \<open>(executable, args, input)\<close>: an executable that cannot be started
  fails with \<^verbatim>\<open>ExecutableNotFound\<close> naming it and spawns nothing; a non-zero exit status
  fails with \<^verbatim>\<open>CalledProcessError\<close> carrying the status and the captured standard error
  (discarded in quiet mode); otherwise the standard output is returned. The working
  directory of the process is not modelled.
\<close>

definition run_check ::
  "env \<Rightarrow> string \<Rightarrow> string list \<Rightarrow> bytes \<Rightarrow> bool \<Rightarrow> world \<Rightarrow> (error + bytes) \<times> world" where
  "run_check ev exe args input quiet w =
     (case tool ev exe args input of
        None \<Rightarrow> (Inl (ExecutableNotFound exe), w)
      | Some (returncode, out, err) \<Rightarrow>
          (let w' = w\<lparr>spawned := spawned w @ [exe # args]\<rparr> in
           if returncode \<noteq> 0
             then (Inl (CalledProcessError returncode (if quiet then [] else err)), w')
           else (Inr out, w')))"

text \<open>Each input line is encoded on its own and written to standard input in order.\<close>

fun encode_lines :: "env \<Rightarrow> nat \<Rightarrow> string list \<Rightarrow> bytes option" where
  "encode_lines ev c [] = Some []"
| "encode_lines ev c (l # ls) =
     (case codec_encode ev c l of
        None \<Rightarrow> None
      | Some b \<Rightarrow>
          (case encode_lines ev c ls of
             None \<Rightarrow> None
           | Some bs \<Rightarrow> Some (b @ bs)))"

text \<open>
  Modelled from the spec: \<^verbatim>\<open>backend.pipe_lines\<close> is not defined in this module
  (section 4.5, Pipe: Source, Command Builder, Process Runner, bytes). The command is
  validated first, the lines are encoded with the input encoding, the standard output
  comes back raw.
\<close>

definition pipe_lines ::
  "env \<Rightarrow> string \<Rightarrow> string \<Rightarrow> string list \<Rightarrow> string \<Rightarrow> string option \<Rightarrow> string option
     \<Rightarrow> bool \<Rightarrow> world \<Rightarrow> (error + bytes) \<times> world" where
  "pipe_lines ev engine format input_lines input_encoding renderer formatter quiet w =
     (case command ev engine format renderer formatter of
        Inl e \<Rightarrow> (Inl e, w)
      | Inr args \<Rightarrow>
          (case codecs_lookup ev input_encoding of
             None \<Rightarrow> (Inl (LookupError input_encoding), w)
           | Some c \<Rightarrow>
               (case encode_lines ev c input_lines of
                  None \<Rightarrow> (Inl (UnicodeEncodeError c), w)
                | Some input \<Rightarrow> run_check ev engine args input quiet w)))"

text \<open>
  Modelled from the spec: \<^verbatim>\<open>backend.pipe_lines_string\<close> is not defined in
  this module. Section 4.3 calls it the single-encoding code path: one codec, looked up once,
  encodes what goes to standard input and decodes what comes from standard output.
\<close>

definition pipe_lines_string ::
  "env \<Rightarrow> string \<Rightarrow> string \<Rightarrow> string list \<Rightarrow> string \<Rightarrow> string option \<Rightarrow> string option
     \<Rightarrow> bool \<Rightarrow> world \<Rightarrow> (error + string) \<times> world" where
  "pipe_lines_string ev engine format input_lines encoding renderer formatter quiet w =
     (case command ev engine format renderer formatter of
        Inl e \<Rightarrow> (Inl e, w)
      | Inr args \<Rightarrow>
          (case codecs_lookup ev encoding of
             None \<Rightarrow> (Inl (LookupError encoding), w)
           | Some c \<Rightarrow>
               (case encode_lines ev c input_lines of
                  None \<Rightarrow> (Inl (UnicodeEncodeError c), w)
                | Some input \<Rightarrow>
                    (case run_check ev engine args input quiet w of
                       (Inl e, w') \<Rightarrow> (Inl e, w')
                     | (Inr out, w') \<Rightarrow>
                         (case codec_decode ev c out of
                            None \<Rightarrow> (Inl (UnicodeDecodeError c), w')
                          | Some s \<Rightarrow> (Inr s, w'))))))"

text \<open>
  Modelled from the spec: \<^verbatim>\<open>backend.render\<close> is not defined in this module
  (section 4.5, Render-to-file, and section 6). The executable is given the saved file as
  its input; on success the rendered file, named by the source path and the format
  extension, exists and its path is returned.
\<close>

definition backend_render ::
  "env \<Rightarrow> string \<Rightarrow> string \<Rightarrow> string \<Rightarrow> string option \<Rightarrow> string option \<Rightarrow> bool \<Rightarrow> world
     \<Rightarrow> (error + string) \<times> world" where
  "backend_render ev engine format filepath renderer formatter quiet w =
     (case command ev engine format renderer formatter of
        Inl e \<Rightarrow> (Inl e, w)
      | Inr args \<Rightarrow>
          (case run_check ev engine (args @ [''-O'', filepath]) [] quiet w of
             (Inl e, w') \<Rightarrow> (Inl e, w')
           | (Inr out, w') \<Rightarrow>
               (let rendered = filepath @ ''.'' @ format
                in (Inr rendered, w'\<lparr>files := insert rendered (files w')\<rparr>))))"

text \<open>
  Modelled from the spec: \<^verbatim>\<open>backend.unflatten\<close> (section 4.4 and section 6) is not
  defined in this module. \<^verbatim>\<open>fanout\<close> without \<^verbatim>\<open>stagger\<close> fails before the invocation;
  the flags are \<^verbatim>\<open>-l<n>\<close>, \<^verbatim>\<open>-f\<close> and \<^verbatim>\<open>-c<n>\<close>; the text goes through the Process
  Runner with the one encoding given.
\<close>

definition backend_unflatten ::
  "env \<Rightarrow> string \<Rightarrow> int option \<Rightarrow> bool \<Rightarrow> int option \<Rightarrow> string \<Rightarrow> world
     \<Rightarrow> (error + string) \<times> world" where
  "backend_unflatten ev src stagger fanout chain encoding w =
     (if fanout \<and> stagger = None then (Inl RequiredArgumentError, w)
      else
        (let args = (case stagger of None \<Rightarrow> [] | Some n \<Rightarrow> [''-l'' @ str_int n])
                    @ (if fanout then [''-f''] else [])
                    @ (case chain of None \<Rightarrow> [] | Some n \<Rightarrow> [''-c'' @ str_int n])
         in
           (case str_encode ev encoding src of
              Inl e \<Rightarrow> (Inl e, w)
            | Inr input \<Rightarrow>
                (case run_check ev ''unflatten'' args input False w of
                   (Inl e, w') \<Rightarrow> (Inl e, w')
                 | (Inr out, w') \<Rightarrow>
                     (case bytes_decode ev encoding out of
                        Inl e \<Rightarrow> (Inl e, w')
                      | Inr s \<Rightarrow> (Inr s, w'))))))"

text \<open>
  Modelled from the spec: the viewer launchers \<^verbatim>\<open>backend.view_darwin\<close>,
  \<^verbatim>\<open>backend.view_unixoid\<close> and \<^verbatim>\<open>backend.view_windows\<close> are not defined in
  this module (section 4.5: the handler is invoked with the rendered file path and a quiet flag
  and starts a viewer process without waiting for it). A handler says which process it
  starts, or fails.
\<close>

type_synonym handler = "string \<Rightarrow> bool \<Rightarrow> error + launch"

definition view_darwin :: handler where
  "view_darwin filepath quiet = Inr (''darwin'', filepath, quiet)"

definition view_unixoid :: handler where
  "view_unixoid filepath quiet = Inr (''unixoid'', filepath, quiet)"

definition view_windows :: handler where
  "view_windows filepath quiet = Inr (''windows'', filepath, quiet)"

text \<open>
  Modelled from the spec: \<^verbatim>\<open>files.File.save\<close> is not defined in this module
  (section 4.5 and section 6). The source is written to the file named by the filename,
  or the object's own when none is given, under the optional directory; the path is
  returned. A path that cannot be written fails.
\<close>

definition save ::
  "source_obj \<Rightarrow> string option \<Rightarrow> string option \<Rightarrow> env \<Rightarrow> world \<Rightarrow> (error + string) \<times> world" where
  "save self fname dir ev w =
     (let name = (case fname of None \<Rightarrow> filename self | Some f \<Rightarrow> f);
          filepath = (case (case dir of None \<Rightarrow> directory self | Some d \<Rightarrow> Some d) of
                        None \<Rightarrow> name
                      | Some d \<Rightarrow> d @ ''/'' @ name)
      in if unwritable ev filepath then (Inl (OSError filepath), w)
         else (Inr filepath, w\<lparr>files := insert filepath (files w)\<rparr>))"

text \<open>
  Modelled from the spec: the constructor of \<^verbatim>\<open>Source\<close> is imported from the package and
  is not defined in this module. It stores its arguments (section 3: an immutable
  text blob with its metadata).
\<close>

definition Source ::
  "string \<Rightarrow> string \<Rightarrow> string option \<Rightarrow> string \<Rightarrow> string \<Rightarrow> string \<Rightarrow> source_obj" where
  "Source src fname dir format engine encoding =
     \<lparr>source = src, filename = fname, directory = dir,
      self_format = format, self_engine = engine, self_encoding = encoding\<rparr>"

subsection \<open>Unflatten.unflatten\<close>

text \<open>The source goes through \<^verbatim>\<open>backend.unflatten\<close> with the object's encoding; the result
  is wrapped in a new \<^verbatim>\<open>Source\<close> built from the object's fields.\<close>

definition unflatten ::
  "source_obj \<Rightarrow> int option \<Rightarrow> bool \<Rightarrow> int option \<Rightarrow> env \<Rightarrow> world
     \<Rightarrow> (error + source_obj) \<times> world" where
  "unflatten self stagger fanout chain ev w =
     (case backend_unflatten ev (source self) stagger fanout chain (self_encoding self) w of
        (Inl e, w') \<Rightarrow> (Inl e, w')
      | (Inr out, w') \<Rightarrow>
          (Inr (Source out (filename self) (directory self)
                  (self_format self) (self_engine self) (self_encoding self)), w'))"

subsection \<open>Pipe.pipe\<close>

text \<open>The method returns \<^verbatim>\<open>bytes\<close>, or \<^verbatim>\<open>str\<close> when an encoding is given.\<close>

datatype pipe_output = Bytes bytes | Str string

text \<open>
  \<^verbatim>\<open>codecs.lookup(encoding) is codecs.lookup(self._encoding)\<close> evaluates the left lookup
  first; either raises \<^verbatim>\<open>LookupError\<close> for an unknown name; \<^verbatim>\<open>is\<close> compares the
  identities of the two codec objects.
\<close>

definition pipe ::
  "source_obj \<Rightarrow> string option \<Rightarrow> string option \<Rightarrow> string option \<Rightarrow> bool \<Rightarrow> string option
     \<Rightarrow> env \<Rightarrow> world \<Rightarrow> (error + pipe_output) \<times> world" where
  "pipe self format renderer formatter quiet encoding ev w =
     (let format = (case format of None \<Rightarrow> self_format self | Some f \<Rightarrow> f);
          input_lines = iter_lines ev self
      in
        (case encoding of
           Some enc \<Rightarrow>
             (case codecs_lookup ev enc of
                None \<Rightarrow> (Inl (LookupError enc), w)
              | Some c1 \<Rightarrow>
                  (case codecs_lookup ev (self_encoding self) of
                     None \<Rightarrow> (Inl (LookupError (self_encoding self)), w)
                   | Some c2 \<Rightarrow>
                       if c1 = c2 then
                         (case pipe_lines_string ev (self_engine self) format input_lines enc
                                 renderer formatter quiet w of
                            (Inl e, w') \<Rightarrow> (Inl e, w')
                          | (Inr s, w') \<Rightarrow> (Inr (Str s), w'))
                       else
                         (case pipe_lines ev (self_engine self) format input_lines
                                 (self_encoding self) renderer formatter quiet w of
                            (Inl e, w') \<Rightarrow> (Inl e, w')
                          | (Inr raw, w') \<Rightarrow>
                              (case bytes_decode ev enc raw of
                                 Inl e \<Rightarrow> (Inl e, w')
                               | Inr s \<Rightarrow> (Inr (Str s), w')))))
         | None \<Rightarrow>
             (case pipe_lines ev (self_engine self) format input_lines
                     (self_encoding self) renderer formatter quiet w of
                (Inl e, w') \<Rightarrow> (Inl e, w')
              | (Inr raw, w') \<Rightarrow> (Inr (Bytes raw), w'))))"

text \<open>
  The generic path in the words of the spec (section 8): request no decoding, then decode
  the raw bytes with the requested encoding.
\<close>

definition pipe_raw_then_decode ::
  "source_obj \<Rightarrow> string option \<Rightarrow> string option \<Rightarrow> string option \<Rightarrow> bool \<Rightarrow> string
     \<Rightarrow> env \<Rightarrow> world \<Rightarrow> (error + pipe_output) \<times> world" where
  "pipe_raw_then_decode self format renderer formatter quiet enc ev w =
     (case pipe self format renderer formatter quiet None ev w of
        (Inl e, w') \<Rightarrow> (Inl e, w')
      | (Inr (Str s), w') \<Rightarrow> (Inr (Str s), w')
      | (Inr (Bytes raw), w') \<Rightarrow>
          (case bytes_decode ev enc raw of
             Inl e \<Rightarrow> (Inl e, w')
           | Inr s \<Rightarrow> (Inr (Str s), w')))"

subsection \<open>RenderFileView._view\<close>

text \<open>
  What \<^verbatim>\<open>_view\<close> reads from the calling object's class: its \<^verbatim>\<open>repr\<close> and, for a name,
  what \<^verbatim>\<open>getattr(self, name, None)\<close> returns (\<open>None\<close> when there is no such attribute).
\<close>

record cls =
  cls_repr :: string
  attrs :: "string \<Rightarrow> handler option"

definition methodnames :: "string \<Rightarrow> string \<Rightarrow> string list" where
  "methodnames format platform =
     [''_view_'' @ format @ ''_'' @ platform, ''_view_'' @ platform]"

text \<open>The \<^verbatim>\<open>for ... else\<close> loop: the first name with an attribute that is not \<^verbatim>\<open>None\<close>
  ends the loop; \<open>None\<close> is the \<^verbatim>\<open>else\<close> branch.\<close>

primrec find_view_method :: "(string \<Rightarrow> handler option) \<Rightarrow> string list \<Rightarrow> handler option" where
  "find_view_method getattr [] = None"
| "find_view_method getattr (name # names) =
     (case getattr name of
        Some view_method \<Rightarrow> Some view_method
      | None \<Rightarrow> find_view_method getattr names)"

text \<open>The call \<^verbatim>\<open>view_method(filepath, quiet=quiet)\<close>.\<close>

definition call_view_method :: "handler \<Rightarrow> string \<Rightarrow> bool \<Rightarrow> world \<Rightarrow> (error + unit) \<times> world" where
  "call_view_method view_method filepath quiet w =
     (case view_method filepath quiet of
        Inl e \<Rightarrow> (Inl e, w)
      | Inr l \<Rightarrow> (Inr (), w\<lparr>launched := launched w @ [l]\<rparr>))"

definition no_viewer_message :: "string \<Rightarrow> string \<Rightarrow> string \<Rightarrow> string" where
  "no_viewer_message class_repr format platform =
     class_repr @ '' has no built-in viewer'' @ '' support for '' @ py_repr format
       @ '' on '' @ py_repr platform @ '' platform''"

definition self_view ::
  "cls \<Rightarrow> env \<Rightarrow> string \<Rightarrow> string \<Rightarrow> bool \<Rightarrow> world \<Rightarrow> (error + unit) \<times> world" where
  "self_view c ev filepath format quiet w =
     (case find_view_method (attrs c) (methodnames format (PLATFORM ev)) of
        None \<Rightarrow> (Inl (RuntimeError (no_viewer_message (cls_repr c) format (PLATFORM ev))), w)
      | Some view_method \<Rightarrow> call_view_method view_method filepath quiet w)"

text \<open>The four class attributes at the end of \<^verbatim>\<open>RenderFileView\<close>.\<close>

definition Render_attrs :: "string \<Rightarrow> handler option" where
  "Render_attrs name =
     (if name = ''_view_darwin'' then Some view_darwin
      else if name = ''_view_freebsd'' then Some view_unixoid
      else if name = ''_view_linux'' then Some view_unixoid
      else if name = ''_view_windows'' then Some view_windows
      else None)"

subsection \<open>RenderFile.render and RenderFileView.view\<close>

definition render ::
  "cls \<Rightarrow> source_obj \<Rightarrow> string option \<Rightarrow> string option \<Rightarrow> bool \<Rightarrow> bool \<Rightarrow> string option
     \<Rightarrow> string option \<Rightarrow> string option \<Rightarrow> bool \<Rightarrow> bool \<Rightarrow> env \<Rightarrow> world
     \<Rightarrow> (error + string) \<times> world" where
  "render c self fname dir view cleanup format renderer formatter quiet quiet_view ev w =
     (case save self fname dir ev w of
        (Inl e, w1) \<Rightarrow> (Inl e, w1)
      | (Inr filepath, w1) \<Rightarrow>
          (let format = (case format of None \<Rightarrow> self_format self | Some f \<Rightarrow> f) in
           (case backend_render ev (self_engine self) format filepath
                   renderer formatter quiet w1 of
              (Inl e, w2) \<Rightarrow> (Inl e, w2)
            | (Inr rendered, w2) \<Rightarrow>
                (case (if cleanup then os_remove filepath w2 else (Inr (), w2)) of
                   (Inl e, w3) \<Rightarrow> (Inl e, w3)
                 | (Inr u, w3) \<Rightarrow>
                     (case (if quiet_view \<or> view
                              then self_view c ev rendered (self_format self) quiet_view w3
                            else (Inr (), w3)) of
                        (Inl e, w4) \<Rightarrow> (Inl e, w4)
                      | (Inr u', w4) \<Rightarrow> (Inr rendered, w4))))))"

definition view ::
  "cls \<Rightarrow> source_obj \<Rightarrow> string option \<Rightarrow> string option \<Rightarrow> bool \<Rightarrow> bool \<Rightarrow> bool
     \<Rightarrow> env \<Rightarrow> world \<Rightarrow> (error + string) \<times> world" where
  "view c self fname dir cleanup quiet quiet_view ev w =
     render c self fname dir True cleanup None None None quiet quiet_view ev w"

subsection \<open>A concrete environment and concrete objects\<close>

text \<open>
  A Linux host with two codecs (ASCII under two names, Latin-1 under two names), a
  \<^verbatim>\<open>dot\<close> that writes two bytes outside ASCII for \<^verbatim>\<open>png\<close>, echoes its input for
  \<^verbatim>\<open>svg\<close> and fails with status 1 for anything else, and an \<^verbatim>\<open>unflatten\<close> that echoes
  its input. No other executable can be started.
\<close>

definition ascii_encode :: "string \<Rightarrow> bytes option" where
  "ascii_encode s =
     (if list_all (\<lambda>ch. (of_char ch :: nat) < 128) s then Some (map of_char s) else None)"

definition ascii_decode :: "bytes \<Rightarrow> string option" where
  "ascii_decode b =
     (if list_all (\<lambda>x. unat x < 128) b then Some (map (\<lambda>x. char_of (unat x)) b) else None)"

definition demo_tool :: "string \<Rightarrow> string list \<Rightarrow> bytes \<Rightarrow> (int \<times> bytes \<times> string) option" where
  "demo_tool exe args input =
     (if exe = ''dot'' then
        (if ''-Tpng'' \<in> set args then Some (0, [0x89, 0xFF], [])
         else if ''-Tsvg'' \<in> set args then Some (0, input, [])
         else Some (1, [], ''boom''))
      else if exe = ''unflatten'' then Some (0, input, [])
      else None)"

definition demo_lookup :: "string \<Rightarrow> nat option" where
  "demo_lookup name =
     (if name = ''ascii'' \<or> name = ''ASCII'' then Some 0
      else if name = ''latin-1'' \<or> name = ''latin1'' then Some 1
      else None)"

definition demo_env :: "string \<Rightarrow> env" where
  "demo_env platform =
     \<lparr>PLATFORM = platform,
      ENGINES = [''dot'', ''neato''],
      FORMATS = [''pdf'', ''png'', ''svg''],
      RENDERERS = [''cairo''],
      FORMATTERS = [''core''],
      codecs_lookup = demo_lookup,
      codec_encode = (\<lambda>c s. if c = 0 then ascii_encode s else Some (map of_char s)),
      codec_decode = (\<lambda>c b. if c = 0 then ascii_decode b
                              else Some (map (\<lambda>x. char_of (unat x)) b)),
      tool = demo_tool,
      iter_lines = (\<lambda>self. [source self]),
      unwritable = (\<lambda>path. path = []) \<rparr>"

definition demo_source :: "string \<Rightarrow> string \<Rightarrow> source_obj" where
  "demo_source format encoding =
     \<lparr>source = ''graph { a -- b }'', filename = ''g.gv'', directory = None,
      self_format = format, self_engine = ''dot'', self_encoding = encoding\<rparr>"

definition Render_cls :: cls where
  "Render_cls = \<lparr>cls_repr = ''<class Render>'', attrs = Render_attrs\<rparr>"

definition view_png :: handler where
  "view_png filepath quiet = Inr (''png viewer'', filepath, quiet)"

definition Png_cls :: cls where
  "Png_cls =
     \<lparr>cls_repr = ''<class Png>'',
      attrs = (\<lambda>name. if name = ''_view_png_linux'' then Some view_png else Render_attrs name)\<rparr>"

definition world0 :: world where
  "world0 = \<lparr>files = {}, spawned = [], launched = []\<rparr>"

text \<open>
  Text whose \<^verbatim>\<open>repr\<close> is the text itself between single quotes: printable ASCII
  with no single quote and no backslash.
\<close>

definition plain_text :: "string \<Rightarrow> bool" where
  "plain_text s =
     list_all (\<lambda>c. c \<noteq> CHR 0x27 \<and> c \<noteq> CHR 0x5C \<and> 32 \<le> (of_char c :: nat)
                    \<and> (of_char c :: nat) < 127) s"

section \<open>Properties\<close>

subsection \<open>What each step leaves alone\<close>

lemmas demo_defs =
  demo_env_def demo_source_def demo_tool_def demo_lookup_def ascii_encode_def ascii_decode_def
  Render_cls_def Png_cls_def Render_attrs_def view_png_def world0_def
  view_darwin_def view_unixoid_def view_windows_def

lemma save_ok:
  "save self fname dir ev w = (Inr filepath, w1) \<Longrightarrow>
     filepath \<in> files w1 \<and> spawned w1 = spawned w \<and> launched w1 = launched w"
  by (auto simp: save_def Let_def split: if_splits)

lemma save_frame:
  "save self fname dir ev w = (r, w1) \<Longrightarrow> spawned w1 = spawned w \<and> launched w1 = launched w"
  by (auto simp: save_def Let_def split: if_splits)

lemma run_check_frame:
  "run_check ev exe args input quiet w = (r, w') \<Longrightarrow>
     files w' = files w \<and> launched w' = launched w"
  by (auto simp: run_check_def Let_def split: option.splits if_splits)

lemma backend_render_frame:
  "backend_render ev engine format filepath renderer formatter quiet w = (r, w') \<Longrightarrow>
     files w \<subseteq> files w' \<and> launched w' = launched w"
  by (auto simp: backend_render_def Let_def split: sum.splits prod.splits dest: run_check_frame)


lemma os_remove_frame:
  "os_remove path w = (r, w') \<Longrightarrow> spawned w' = spawned w \<and> launched w' = launched w"
  by (auto simp: os_remove_def split: if_splits)

lemma command_formatter_without_renderer:
  "command ev engine format None (Some f) = Inl RequiredArgumentError"
  by (simp add: command_def)

subsection \<open>The concrete environment, evaluated\<close>

lemma demo_save:
  "save (demo_source fmt enc) None None (demo_env pf) world0
     = (Inr ''g.gv'', world0\<lparr>files := {''g.gv''}\<rparr>)"
  by (simp add: save_def demo_env_def demo_source_def world0_def Let_def)

lemma demo_render_png:
  "backend_render (demo_env pf) ''dot'' ''png'' ''g.gv'' None None False
       (world0\<lparr>files := {''g.gv''}\<rparr>)
     = (Inr ''g.gv.png'',
        \<lparr>files = {''g.gv.png'', ''g.gv''}, spawned = [[''dot'', ''-Tpng'', ''-O'', ''g.gv'']],
         launched = []\<rparr>)"
  by (simp add: backend_render_def command_def run_check_def demo_env_def demo_tool_def
        world0_def Let_def)


lemma demo_pipe_lines_png:
  "pipe_lines (demo_env pf) ''dot'' ''png'' [''graph { a -- b }''] ''latin-1'' None None False world0
     = (Inr [0x89, 0xFF], world0\<lparr>spawned := [[''dot'', ''-Tpng'']]\<rparr>)"
  by (simp add: pipe_lines_def command_def run_check_def demo_env_def demo_tool_def
        demo_lookup_def world0_def Let_def)

lemma latin1_bytes: "char_of (137::nat) = CHR 0x89 \<and> char_of (255::nat) = CHR 0xFF"
  by code_simp

lemma ascii_ab: "char_of (97::nat) = CHR ''a'' \<and> char_of (98::nat) = CHR ''b''"
  by code_simp

lemma str_int_3: "str_int 3 = ''3''"
  by (simp add: str_int_def str_nat.simps)

lemma demo_backend_unflatten:
  "backend_unflatten (demo_env ''linux'') ''ab'' (Some 3) True None ''ascii'' world0
     = (Inr ''ab'', world0\<lparr>spawned := [[''unflatten'', ''-l3'', ''-f'']]\<rparr>)"
  by (simp add: backend_unflatten_def str_encode_def bytes_decode_def run_check_def
        demo_env_def demo_lookup_def demo_tool_def ascii_encode_def ascii_decode_def
        world0_def Let_def str_int_3 ascii_ab)

subsection \<open>The text of the missing-viewer message\<close>

lemma concat_plain:
  "list_all (\<lambda>c. repr_char q c = [c]) s \<Longrightarrow> concat (map (repr_char q) s) = s"
  by (induction s) simp_all

lemma repr_char_plain:
  "c \<noteq> CHR 0x27 \<Longrightarrow> c \<noteq> CHR 0x5C \<Longrightarrow> 32 \<le> (of_char c :: nat) \<Longrightarrow> (of_char c :: nat) < 127
     \<Longrightarrow> repr_char (CHR 0x27) c = [c]"
  by (auto simp: repr_char_def Let_def)

lemma py_repr_plain:
  assumes "plain_text s"
  shows "py_repr s = CHR 0x27 # s @ [CHR 0x27]"
proof -
  from assms have noq: "CHR 0x27 \<notin> set s"
    by (auto simp: plain_text_def list_all_iff)
  from assms have "list_all (\<lambda>c. repr_char (CHR 0x27) c = [c]) s"
    by (auto simp: plain_text_def list_all_iff intro: repr_char_plain)
  then have "concat (map (repr_char (CHR 0x27)) s) = s" by (rule concat_plain)
  with noq show ?thesis by (simp add: py_repr_def Let_def)
qed

lemma sublist_py_repr_plain: "plain_text s \<Longrightarrow> sublist s (py_repr s)"
  by (metis py_repr_plain sublist_appendI append_Cons append_Nil)

lemma sublist_message_format:
  "sublist (py_repr format) (no_viewer_message k format platform)"
  unfolding no_viewer_message_def by (metis sublist_appendI append.assoc)

lemma sublist_message_platform:
  "sublist (py_repr platform) (no_viewer_message k format platform)"
  unfolding no_viewer_message_def by (metis sublist_appendI append.assoc)

subsection \<open>Viewer dispatch\<close>

text \<open>
  C6: for every format and platform, \<^verbatim>\<open>_view\<close> takes the handler stored under the name
  built from format and platform; when there is none, the handler stored under the name
  built from the platform alone; when there is none either, it raises
  \<^verbatim>\<open>RuntimeError\<close>, starts nothing, and the message holds the \<^verbatim>\<open>repr\<close> of the format and
  the \<^verbatim>\<open>repr\<close> of the platform (for plain text: the format and the platform themselves).
\<close>

theorem self_view_dispatch:
  "self_view c ev filepath format quiet w =
     (case attrs c (''_view_'' @ format @ ''_'' @ PLATFORM ev) of
        Some by_format_and_platform \<Rightarrow> call_view_method by_format_and_platform filepath quiet w
      | None \<Rightarrow>
          (case attrs c (''_view_'' @ PLATFORM ev) of
             Some by_platform \<Rightarrow> call_view_method by_platform filepath quiet w
           | None \<Rightarrow>
               (Inl (RuntimeError (no_viewer_message (cls_repr c) format (PLATFORM ev))), w)))
   \<and> sublist (py_repr format) (no_viewer_message (cls_repr c) format (PLATFORM ev))
   \<and> sublist (py_repr (PLATFORM ev)) (no_viewer_message (cls_repr c) format (PLATFORM ev))
   \<and> (plain_text format \<longrightarrow>
        sublist format (no_viewer_message (cls_repr c) format (PLATFORM ev)))
   \<and> (plain_text (PLATFORM ev) \<longrightarrow>
        sublist (PLATFORM ev) (no_viewer_message (cls_repr c) format (PLATFORM ev)))"
proof -
  have disp: "self_view c ev filepath format quiet w =
     (case attrs c (''_view_'' @ format @ ''_'' @ PLATFORM ev) of
        Some by_format_and_platform \<Rightarrow> call_view_method by_format_and_platform filepath quiet w
      | None \<Rightarrow>
          (case attrs c (''_view_'' @ PLATFORM ev) of
             Some by_platform \<Rightarrow> call_view_method by_platform filepath quiet w
           | None \<Rightarrow>
               (Inl (RuntimeError (no_viewer_message (cls_repr c) format (PLATFORM ev))), w)))"
    by (simp add: self_view_def methodnames_def split: option.splits)
  note f = sublist_message_format [of format "cls_repr c" "PLATFORM ev"]
  note p = sublist_message_platform [of "PLATFORM ev" "cls_repr c" format]
  have f': "plain_text format \<longrightarrow>
        sublist format (no_viewer_message (cls_repr c) format (PLATFORM ev))"
    using f sublist_py_repr_plain [of format] by (blast intro: sublist_order.order_trans)
  have p': "plain_text (PLATFORM ev) \<longrightarrow>
        sublist (PLATFORM ev) (no_viewer_message (cls_repr c) format (PLATFORM ev))"
    using p sublist_py_repr_plain [of "PLATFORM ev"] by (blast intro: sublist_order.order_trans)
  from disp f p f' p' show ?thesis by blast
qed

text \<open>
  The three outcomes for a class that adds a PNG viewer for Linux to the built-in
  handlers: the PNG handler for \<open>png\<close> on Linux, the platform handler for \<open>pdf\<close> on
  Linux, the error naming \<open>pdf\<close> and \<open>sunos\<close> on a platform without handler.
\<close>

theorem self_view_dispatch_witness:
  "plain_text ''png'' \<and> plain_text ''linux'' \<and> plain_text ''pdf'' \<and> plain_text ''sunos''
   \<and> self_view Png_cls (demo_env ''linux'') ''g.gv.png'' ''png'' False world0
       = (Inr (), world0\<lparr>launched := [(''png viewer'', ''g.gv.png'', False)]\<rparr>)
   \<and> self_view Png_cls (demo_env ''linux'') ''g.gv.pdf'' ''pdf'' False world0
       = (Inr (), world0\<lparr>launched := [(''unixoid'', ''g.gv.pdf'', False)]\<rparr>)
   \<and> self_view Png_cls (demo_env ''sunos'') ''g.gv.pdf'' ''pdf'' False world0
       = (Inl (RuntimeError (no_viewer_message ''<class Png>'' ''pdf'' ''sunos'')), world0)
   \<and> sublist ''pdf'' (no_viewer_message ''<class Png>'' ''pdf'' ''sunos'')
   \<and> sublist ''sunos'' (no_viewer_message ''<class Png>'' ''pdf'' ''sunos'')"
proof -
  have pl: "plain_text ''png''" "plain_text ''linux''" "plain_text ''pdf''" "plain_text ''sunos''"
    by (simp_all add: plain_text_def)
  have a: "self_view Png_cls (demo_env ''linux'') ''g.gv.png'' ''png'' False world0
       = (Inr (), world0\<lparr>launched := [(''png viewer'', ''g.gv.png'', False)]\<rparr>)"
    using self_view_dispatch [of Png_cls "demo_env ''linux''" "''g.gv.png''" "''png''" False world0]
    by (simp add: demo_defs call_view_method_def)
  have b: "self_view Png_cls (demo_env ''linux'') ''g.gv.pdf'' ''pdf'' False world0
       = (Inr (), world0\<lparr>launched := [(''unixoid'', ''g.gv.pdf'', False)]\<rparr>)"
    using self_view_dispatch [of Png_cls "demo_env ''linux''" "''g.gv.pdf''" "''pdf''" False world0]
    by (simp add: demo_defs call_view_method_def)
  have c: "self_view Png_cls (demo_env ''sunos'') ''g.gv.pdf'' ''pdf'' False world0
       = (Inl (RuntimeError (no_viewer_message ''<class Png>'' ''pdf'' ''sunos'')), world0)
     \<and> sublist ''pdf'' (no_viewer_message ''<class Png>'' ''pdf'' ''sunos'')
     \<and> sublist ''sunos'' (no_viewer_message ''<class Png>'' ''pdf'' ''sunos'')"
    using self_view_dispatch [of Png_cls "demo_env ''sunos''" "''g.gv.pdf''" "''pdf''" False world0] pl
    by (simp add: demo_defs)
  from pl a b c show ?thesis by blast
qed

subsection \<open>View is render with the view flag set\<close>

text \<open>
  C7: for every filename, directory, cleanup, quiet and quiet_view, \<^verbatim>\<open>view\<close> does what
  \<^verbatim>\<open>render\<close> does with the same arguments, \<^verbatim>\<open>view=True\<close> and the remaining arguments at
  their defaults: the same result (the rendered path or the error) and the same world
  afterwards.
\<close>

theorem view_is_render:
  "view c self fname dir cleanup quiet quiet_view ev w =
     render c self fname dir True cleanup None None None quiet quiet_view ev w"
  by (simp add: view_def)

theorem view_is_render_witness:
  "view Render_cls (demo_source ''png'' ''ascii'') None None False False False
       (demo_env ''linux'') world0
     = render Render_cls (demo_source ''png'' ''ascii'') None None True False None None None
         False False (demo_env ''linux'') world0"
  using view_is_render [of Render_cls "demo_source ''png'' ''ascii''" None None False False False
                          "demo_env ''linux''" world0]
  by simp

subsection \<open>Unflatten\<close>

text \<open>
  C5: for every source, \<^verbatim>\<open>unflatten\<close> with \<^verbatim>\<open>fanout=True\<close> and \<^verbatim>\<open>stagger=None\<close> fails
  with \<^verbatim>\<open>RequiredArgumentError\<close>, and the world is the one before the call: no subprocess
  was run.
\<close>

theorem unflatten_fanout_without_stagger:
  "unflatten self None True chain ev w = (Inl RequiredArgumentError, w)"
  by (simp add: unflatten_def backend_unflatten_def)

theorem unflatten_fanout_without_stagger_witness:
  "unflatten (demo_source ''png'' ''ascii'') None True (Some 2) (demo_env ''linux'') world0
     = (Inl RequiredArgumentError, world0)"
  using unflatten_fanout_without_stagger
          [of "demo_source ''png'' ''ascii''" "Some 2" "demo_env ''linux''" world0]
  by simp

text \<open>
  C8: when \<^verbatim>\<open>unflatten\<close> succeeds, the object it returns has the filename, directory,
  format, engine and encoding of the input object, and its source text is the output of
  the preprocessor.
\<close>

theorem unflatten_keeps_metadata:
  assumes "unflatten self stagger fanout chain ev w = (Inr s', w')"
  shows "filename s' = filename self \<and> directory s' = directory self
       \<and> self_format s' = self_format self \<and> self_engine s' = self_engine self
       \<and> self_encoding s' = self_encoding self
       \<and> backend_unflatten ev (source self) stagger fanout chain (self_encoding self) w
           = (Inr (source s'), w')"
  using assms
  by (auto simp: unflatten_def Source_def split: prod.splits sum.splits)

theorem unflatten_keeps_metadata_witness:
  "unflatten (demo_source ''png'' ''ascii''\<lparr>source := ''ab''\<rparr>) (Some 3) True None
       (demo_env ''linux'') world0
     = (Inr (demo_source ''png'' ''ascii''\<lparr>source := ''ab''\<rparr>),
        world0\<lparr>spawned := [[''unflatten'', ''-l3'', ''-f'']]\<rparr>)
   \<and> filename (demo_source ''png'' ''ascii''\<lparr>source := ''ab''\<rparr>) = ''g.gv''
   \<and> self_format (demo_source ''png'' ''ascii''\<lparr>source := ''ab''\<rparr>) = ''png''"
proof -
  have u: "unflatten (demo_source ''png'' ''ascii''\<lparr>source := ''ab''\<rparr>) (Some 3) True None
       (demo_env ''linux'') world0
     = (Inr (demo_source ''png'' ''ascii''\<lparr>source := ''ab''\<rparr>),
        world0\<lparr>spawned := [[''unflatten'', ''-l3'', ''-f'']]\<rparr>)"
    using demo_backend_unflatten by (simp add: unflatten_def Source_def demo_source_def)
  from unflatten_keeps_metadata [OF u] u show ?thesis
    by (simp add: demo_source_def)
qed

subsection \<open>Pipe: decoding the output\<close>

text \<open>
  C3: for every source object and every requested encoding whose codec is the codec of the
  source's own encoding, \<^verbatim>\<open>pipe\<close> with that encoding gives what \<^verbatim>\<open>pipe\<close> without
  encoding followed by decoding the raw bytes with the requested encoding gives: the same
  text, or the same error, and the same world afterwards.
\<close>

theorem pipe_same_encoding:
  assumes "codecs_lookup ev enc = Some cd" and "codecs_lookup ev (self_encoding self) = Some cd"
  shows "pipe self format renderer formatter quiet (Some enc) ev w
           = pipe_raw_then_decode self format renderer formatter quiet enc ev w"
  using assms
  by (simp add: pipe_def pipe_raw_then_decode_def pipe_lines_string_def pipe_lines_def
        bytes_decode_def Let_def split: sum.splits option.splits prod.splits)

text \<open>A Latin-1 source piped as \<open>png\<close> and decoded under the alias \<open>latin1\<close>.\<close>

theorem pipe_same_encoding_witness:
  "pipe (demo_source ''png'' ''latin-1'') None None None False (Some ''latin1'')
       (demo_env ''linux'') world0
     = pipe_raw_then_decode (demo_source ''png'' ''latin-1'') None None None False ''latin1''
         (demo_env ''linux'') world0
   \<and> pipe_raw_then_decode (demo_source ''png'' ''latin-1'') None None None False ''latin1''
         (demo_env ''linux'') world0
     = (Inr (Str [CHR 0x89, CHR 0xFF]), world0\<lparr>spawned := [[''dot'', ''-Tpng'']]\<rparr>)"
proof -
  have l1: "codecs_lookup (demo_env ''linux'') ''latin1'' = Some 1"
    by (simp add: demo_env_def demo_lookup_def)
  have l2: "codecs_lookup (demo_env ''linux'') (self_encoding (demo_source ''png'' ''latin-1''))
              = Some 1"
    by (simp add: demo_env_def demo_lookup_def demo_source_def)
  have v: "pipe_raw_then_decode (demo_source ''png'' ''latin-1'') None None None False ''latin1''
         (demo_env ''linux'') world0
     = (Inr (Str [CHR 0x89, CHR 0xFF]), world0\<lparr>spawned := [[''dot'', ''-Tpng'']]\<rparr>)"
    using demo_pipe_lines_png [of "''linux''"]
    by (simp add: pipe_raw_then_decode_def pipe_def bytes_decode_def demo_source_def
          demo_env_def demo_lookup_def Let_def latin1_bytes)
  from pipe_same_encoding [OF l1 l2] v show ?thesis by simp
qed

text \<open>
  C9: for every \<^verbatim>\<open>pipe\<close> call whose requested encoding has another codec than the
  source's own encoding, when the layout command returns raw bytes that the requested
  codec cannot decode, the call raises the decode error; no text is returned.
\<close>

theorem pipe_decode_error_propagates:
  assumes "codecs_lookup ev enc = Some c1" and "codecs_lookup ev (self_encoding self) = Some c2"
    and "c1 \<noteq> c2"
    and "pipe_lines ev (self_engine self) (case format of None \<Rightarrow> self_format self | Some f \<Rightarrow> f)
           (iter_lines ev self) (self_encoding self) renderer formatter quiet w = (Inr raw, w')"
    and "codec_decode ev c1 raw = None"
  shows "pipe self format renderer formatter quiet (Some enc) ev w = (Inl (UnicodeDecodeError c1), w')"
  using assms by (simp add: pipe_def bytes_decode_def Let_def)

text \<open>A Latin-1 source piped as \<open>png\<close> and decoded as ASCII: the two bytes are not ASCII.\<close>

theorem pipe_decode_error_propagates_witness:
  "pipe (demo_source ''png'' ''latin-1'') None None None False (Some ''ascii'')
       (demo_env ''linux'') world0
     = (Inl (UnicodeDecodeError 0), world0\<lparr>spawned := [[''dot'', ''-Tpng'']]\<rparr>)"
proof -
  have l1: "codecs_lookup (demo_env ''linux'') ''ascii'' = Some 0"
    by (simp add: demo_env_def demo_lookup_def)
  have l2: "codecs_lookup (demo_env ''linux'') (self_encoding (demo_source ''png'' ''latin-1''))
              = Some 1"
    by (simp add: demo_env_def demo_lookup_def demo_source_def)
  have ne: "(0::nat) \<noteq> 1" by simp
  have raw: "pipe_lines (demo_env ''linux'') (self_engine (demo_source ''png'' ''latin-1''))
           (case None of None \<Rightarrow> self_format (demo_source ''png'' ''latin-1'') | Some f \<Rightarrow> f)
           (iter_lines (demo_env ''linux'') (demo_source ''png'' ''latin-1''))
           (self_encoding (demo_source ''png'' ''latin-1'')) None None False world0
         = (Inr [0x89, 0xFF], world0\<lparr>spawned := [[''dot'', ''-Tpng'']]\<rparr>)"
    using demo_pipe_lines_png [of "''linux''"] by (simp add: demo_source_def demo_env_def)
  have dec: "codec_decode (demo_env ''linux'') 0 [0x89, 0xFF] = None"
    by (simp add: demo_env_def ascii_decode_def)
  from pipe_decode_error_propagates [OF l1 l2 ne raw dec] show ?thesis .
qed

subsection \<open>Formatter without renderer\<close>

text \<open>
  C4, as the code has it: for every format value, \<^verbatim>\<open>pipe\<close> with a formatter and no
  renderer fails with \<^verbatim>\<open>RequiredArgumentError\<close> when no output encoding is requested, and
  when the requested encoding and the source's own encoding both name a codec (an unknown
  name raises \<^verbatim>\<open>LookupError\<close> before the backend is reached); \<^verbatim>\<open>render\<close> with a
  formatter and no renderer fails with \<^verbatim>\<open>RequiredArgumentError\<close> once the source file is
  saved. Whatever the encoding and whatever the outcome of saving, no subprocess has been
  run when the call returns.
\<close>

theorem formatter_without_renderer:
  "pipe self format None (Some f) quiet None ev w = (Inl RequiredArgumentError, w)
   \<and> (codecs_lookup ev enc \<noteq> None \<and> codecs_lookup ev (self_encoding self) \<noteq> None \<longrightarrow>
        pipe self format None (Some f) quiet (Some enc) ev w = (Inl RequiredArgumentError, w))
   \<and> spawned (snd (pipe self format None (Some f) quiet encoding ev w)) = spawned w
   \<and> (save self fname dir ev w = (Inr filepath, w1) \<longrightarrow>
        render c self fname dir want_view cleanup format None (Some f) quiet quiet_view ev w
          = (Inl RequiredArgumentError, w1))
   \<and> spawned (snd (render c self fname dir want_view cleanup format None (Some f) quiet
                      quiet_view ev w))
       = spawned w"
proof -
  have cmd: "\<And>engine fmt. command ev engine fmt None (Some f) = Inl RequiredArgumentError"
    by (rule command_formatter_without_renderer)
  have p1: "pipe self format None (Some f) quiet None ev w = (Inl RequiredArgumentError, w)"
    by (simp add: pipe_def pipe_lines_def cmd Let_def)
  have p2: "codecs_lookup ev enc \<noteq> None \<and> codecs_lookup ev (self_encoding self) \<noteq> None \<longrightarrow>
        pipe self format None (Some f) quiet (Some enc) ev w = (Inl RequiredArgumentError, w)"
    by (auto simp: pipe_def pipe_lines_def pipe_lines_string_def cmd Let_def)
  have p3: "spawned (snd (pipe self format None (Some f) quiet encoding ev w)) = spawned w"
    by (cases encoding)
       (auto simp: pipe_def pipe_lines_def pipe_lines_string_def cmd Let_def split: option.splits)
  have r1: "save self fname dir ev w = (Inr filepath, w1) \<longrightarrow>
        render c self fname dir want_view cleanup format None (Some f) quiet quiet_view ev w
          = (Inl RequiredArgumentError, w1)"
    by (simp add: render_def backend_render_def cmd Let_def)
  have r2: "spawned (snd (render c self fname dir want_view cleanup format None (Some f) quiet
                      quiet_view ev w))
       = spawned w"
  proof (cases "save self fname dir ev w")
    case (Pair r w1)
    then have "spawned w1 = spawned w" by (simp add: save_frame)
    with Pair show ?thesis
      by (cases r) (simp_all add: render_def backend_render_def cmd Let_def)
  qed
  from p1 p2 p3 r1 r2 show ?thesis by blast
qed

text \<open>A format no table knows, a formatter, no renderer: the same error from \<^verbatim>\<open>pipe\<close>
  with a known encoding and from \<^verbatim>\<open>render\<close> after the save.\<close>

theorem formatter_without_renderer_witness:
  "codecs_lookup (demo_env ''linux'') ''latin1'' \<noteq> None
   \<and> codecs_lookup (demo_env ''linux'') (self_encoding (demo_source ''svg'' ''latin-1'')) \<noteq> None
   \<and> pipe (demo_source ''svg'' ''latin-1'') (Some ''nonsense'') None (Some ''core'') False
        (Some ''latin1'') (demo_env ''linux'') world0 = (Inl RequiredArgumentError, world0)
   \<and> save (demo_source ''svg'' ''latin-1'') None None (demo_env ''linux'') world0
        = (Inr ''g.gv'', world0\<lparr>files := {''g.gv''}\<rparr>)
   \<and> render Render_cls (demo_source ''svg'' ''latin-1'') None None True True (Some ''nonsense'')
        None (Some ''core'') False False (demo_env ''linux'') world0
        = (Inl RequiredArgumentError, world0\<lparr>files := {''g.gv''}\<rparr>)"
proof -
  have l1: "codecs_lookup (demo_env ''linux'') ''latin1'' \<noteq> None"
    by (simp add: demo_env_def demo_lookup_def)
  have l2: "codecs_lookup (demo_env ''linux'') (self_encoding (demo_source ''svg'' ''latin-1''))
              \<noteq> None"
    by (simp add: demo_env_def demo_lookup_def demo_source_def)
  note s = demo_save [of "''svg''" "''latin-1''" "''linux''"]
  from formatter_without_renderer
         [where self = "demo_source ''svg'' ''latin-1''" and format = "Some ''nonsense''"
            and f = "''core''" and quiet = False and ev = "demo_env ''linux''" and w = world0
            and enc = "''latin1''" and fname = None and dir = None and filepath = "''g.gv''"
            and ?w1.0 = "world0\<lparr>files := {''g.gv''}\<rparr>" and c = Render_cls
            and want_view = True and cleanup = True and quiet_view = False]
       l1 l2 s
  show ?thesis by simp
qed

text \<open>
  C4 as stated fails: with a formatter, no renderer and an output encoding that names no
  codec, \<^verbatim>\<open>pipe\<close> raises \<^verbatim>\<open>LookupError\<close> from \<^verbatim>\<open>codecs.lookup\<close>, not
  \<^verbatim>\<open>RequiredArgumentError\<close>.
\<close>

theorem formatter_without_renderer_counterexample:
  "fst (pipe (demo_source ''svg'' ''latin-1'') None None (Some ''core'') False (Some ''bogus'')
          (demo_env ''linux'') world0) = Inl (LookupError ''bogus'')
   \<and> fst (pipe (demo_source ''svg'' ''latin-1'') None None (Some ''core'') False (Some ''bogus'')
          (demo_env ''linux'') world0) \<noteq> Inl RequiredArgumentError"
  by (simp add: pipe_def demo_env_def demo_lookup_def Let_def)

subsection \<open>Render to file: cleanup and viewing\<close>



text \<open>
  C10: for every \<^verbatim>\<open>render\<close> call whose save, rendering step and optional cleanup
  succeeded: with \<^verbatim>\<open>quiet_view=True\<close> the viewer is dispatched, whatever \<^verbatim>\<open>view\<close> is,
  and the call returns the rendered path unless the dispatch raises; with \<^verbatim>\<open>quiet_view\<close>
  and \<^verbatim>\<open>view\<close> both false the call returns the rendered path in the world the cleanup
  left, and no viewer has been started since the call began.
\<close>

theorem render_quiet_view:
  assumes "save self fname dir ev w = (Inr filepath, w1)"
    and "backend_render ev (self_engine self)
           (case format of None \<Rightarrow> self_format self | Some f \<Rightarrow> f)
           filepath renderer formatter quiet w1 = (Inr rendered, w2)"
    and "(if cleanup then os_remove filepath w2 else (Inr (), w2)) = (Inr (), w3)"
  shows "render c self fname dir want_view cleanup format renderer formatter quiet True ev w
           = (case self_view c ev rendered (self_format self) True w3 of
                (Inl e, w4) \<Rightarrow> (Inl e, w4)
              | (Inr u, w4) \<Rightarrow> (Inr rendered, w4))
       \<and> render c self fname dir False cleanup format renderer formatter quiet False ev w
           = (Inr rendered, w3)
       \<and> launched w3 = launched w"
proof -
  from assms(1) have l1: "launched w1 = launched w" by (simp add: save_ok)
  from assms(2) have l2: "launched w2 = launched w1" by (simp add: backend_render_frame)
  from assms(3) have l3: "launched w3 = launched w2"
    by (auto split: if_splits dest: os_remove_frame)
  from assms l1 l2 l3 show ?thesis
    by (simp add: render_def Let_def)
qed

text \<open>On Linux, \<^verbatim>\<open>view=False\<close>: with \<^verbatim>\<open>quiet_view=True\<close> the platform viewer is started
  quietly, with \<^verbatim>\<open>quiet_view=False\<close> nothing is started.\<close>

theorem render_quiet_view_witness:
  "render Render_cls (demo_source ''png'' ''ascii'') None None False False None None None
       False True (demo_env ''linux'') world0
     = (Inr ''g.gv.png'',
        \<lparr>files = {''g.gv.png'', ''g.gv''}, spawned = [[''dot'', ''-Tpng'', ''-O'', ''g.gv'']],
         launched = [(''unixoid'', ''g.gv.png'', True)]\<rparr>)
   \<and> render Render_cls (demo_source ''png'' ''ascii'') None None False False None None None
       False False (demo_env ''linux'') world0
     = (Inr ''g.gv.png'',
        \<lparr>files = {''g.gv.png'', ''g.gv''}, spawned = [[''dot'', ''-Tpng'', ''-O'', ''g.gv'']],
         launched = []\<rparr>)"
proof -
  have r: "backend_render (demo_env ''linux'') (self_engine (demo_source ''png'' ''ascii''))
           (case None of None \<Rightarrow> self_format (demo_source ''png'' ''ascii'') | Some f \<Rightarrow> f)
           ''g.gv'' None None False (world0\<lparr>files := {''g.gv''}\<rparr>)
     = (Inr ''g.gv.png'',
        \<lparr>files = {''g.gv.png'', ''g.gv''}, spawned = [[''dot'', ''-Tpng'', ''-O'', ''g.gv'']],
         launched = []\<rparr>)"
    using demo_render_png [of "''linux''"] by (simp add: demo_source_def)
  have k: "(if False then os_remove ''g.gv''
               \<lparr>files = {''g.gv.png'', ''g.gv''},
                spawned = [[''dot'', ''-Tpng'', ''-O'', ''g.gv'']], launched = []\<rparr>
            else (Inr (), \<lparr>files = {''g.gv.png'', ''g.gv''},
                spawned = [[''dot'', ''-Tpng'', ''-O'', ''g.gv'']], launched = []\<rparr>))
     = (Inr (), \<lparr>files = {''g.gv.png'', ''g.gv''},
                spawned = [[''dot'', ''-Tpng'', ''-O'', ''g.gv'']], launched = []\<rparr>)"
    by simp
  from render_quiet_view [OF demo_save r k, of Render_cls False] show ?thesis
    by (simp add: self_view_def methodnames_def call_view_method_def demo_defs)
qed

text \<open>
  C1 does not hold of the code: \<^verbatim>\<open>render\<close> hands \<^verbatim>\<open>self._format\<close> to \<^verbatim>\<open>_view\<close>, not the
  format it rendered with. An object whose own format is \<open>pdf\<close> is rendered with
  \<^verbatim>\<open>format='png'\<close> and \<^verbatim>\<open>view=True\<close>. On Linux, with a class that has a PNG viewer, the
  PNG file goes to the platform viewer, although dispatching on \<open>png\<close> would start the PNG
  viewer. On a platform without handler the error speaks of \<open>pdf\<close>.
\<close>

theorem render_views_with_default_format:
  "render Png_cls (demo_source ''pdf'' ''ascii'') None None True False (Some ''png'') None None
       False False (demo_env ''linux'') world0
     = (Inr ''g.gv.png'',
        \<lparr>files = {''g.gv.png'', ''g.gv''}, spawned = [[''dot'', ''-Tpng'', ''-O'', ''g.gv'']],
         launched = [(''unixoid'', ''g.gv.png'', False)]\<rparr>)
   \<and> self_view Png_cls (demo_env ''linux'') ''g.gv.png'' ''png'' False
        \<lparr>files = {''g.gv.png'', ''g.gv''}, spawned = [[''dot'', ''-Tpng'', ''-O'', ''g.gv'']],
         launched = []\<rparr>
     = (Inr (),
        \<lparr>files = {''g.gv.png'', ''g.gv''}, spawned = [[''dot'', ''-Tpng'', ''-O'', ''g.gv'']],
         launched = [(''png viewer'', ''g.gv.png'', False)]\<rparr>)
   \<and> render Render_cls (demo_source ''pdf'' ''ascii'') None None True False (Some ''png'') None None
       False False (demo_env ''sunos'') world0
     = (Inl (RuntimeError (no_viewer_message ''<class Render>'' ''pdf'' ''sunos'')),
        \<lparr>files = {''g.gv.png'', ''g.gv''}, spawned = [[''dot'', ''-Tpng'', ''-O'', ''g.gv'']],
         launched = []\<rparr>)"
proof -
  have a: "render Png_cls (demo_source ''pdf'' ''ascii'') None None True False (Some ''png'') None None
       False False (demo_env ''linux'') world0
     = (Inr ''g.gv.png'',
        \<lparr>files = {''g.gv.png'', ''g.gv''}, spawned = [[''dot'', ''-Tpng'', ''-O'', ''g.gv'']],
         launched = [(''unixoid'', ''g.gv.png'', False)]\<rparr>)"
    using demo_save [of "''pdf''" "''ascii''" "''linux''"] demo_render_png [of "''linux''"]
    by (simp add: render_def self_view_def methodnames_def call_view_method_def demo_defs)
  have b: "self_view Png_cls (demo_env ''linux'') ''g.gv.png'' ''png'' False
        \<lparr>files = {''g.gv.png'', ''g.gv''}, spawned = [[''dot'', ''-Tpng'', ''-O'', ''g.gv'']],
         launched = []\<rparr>
     = (Inr (),
        \<lparr>files = {''g.gv.png'', ''g.gv''}, spawned = [[''dot'', ''-Tpng'', ''-O'', ''g.gv'']],
         launched = [(''png viewer'', ''g.gv.png'', False)]\<rparr>)"
    by (simp add: self_view_def methodnames_def call_view_method_def demo_defs)
  have c: "render Render_cls (demo_source ''pdf'' ''ascii'') None None True False (Some ''png'') None None
       False False (demo_env ''sunos'') world0
     = (Inl (RuntimeError (no_viewer_message ''<class Render>'' ''pdf'' ''sunos'')),
        \<lparr>files = {''g.gv.png'', ''g.gv''}, spawned = [[''dot'', ''-Tpng'', ''-O'', ''g.gv'']],
         launched = []\<rparr>)"
    using demo_save [of "''pdf''" "''ascii''" "''sunos''"] demo_render_png [of "''sunos''"]
    by (simp add: render_def self_view_def methodnames_def call_view_method_def demo_defs)
  from a b c show ?thesis by blast
qed

end
